theory Spec2Isabelle
  imports Complex_Main "HOL-Library.Sublist"
begin

section \<open>Keyboard-inset heuristic of \<open>MainLayout.tsx\<close>\<close>

text \<open>
  The effect at lines 90-232 of \<open>MainLayout.tsx\<close> keeps three closure variables
  (\<open>stickyKeyboardInset\<close>, \<open>ignoreOpenUntilZero\<close>, \<open>previousHeight\<close>) and publishes two
  CSS custom properties on the document root. Every handler reads the DOM afresh; what it
  reads is collected in the record \<open>dom\<close> and passed to the handler as an argument.

  Numbers: \<open>visualViewport.height\<close> and \<open>visualViewport.offsetTop\<close> are fractional CSS
  pixels and are modelled as reals; \<open>Math.round\<close> rounds to the nearest integer with ties
  towards plus infinity. \<open>window.innerHeight\<close> and \<open>clientHeight\<close> are integers. After the
  rounding every quantity of the heuristic is an integer.

  The scroll lock at the end of \<open>updateVisualViewport\<close> (lines 166-175) writes scroll
  positions only; the heuristic never reads them and they are left out of the state.
\<close>

subsection \<open>What the handlers read\<close>

record element =
  tagName :: string
  isContentEditable :: bool

record VisualViewport =
  vv_height :: real
  vv_offsetTop :: real

record dom =
  visualViewport :: "VisualViewport option"
  innerHeight :: int
  clientHeight :: int
  activeElement :: "element option"

definition Math_round :: "real \<Rightarrow> int" where
  "Math_round x = \<lfloor>x + 1 / 2\<rfloor>"

text \<open>\<open>tagName === 'INPUT' || tagName === 'TEXTAREA' || tagName === 'SELECT'\<close>, where
  \<open>tagName\<close> is \<open>undefined\<close> for a null element.\<close>

definition isInput :: "element option \<Rightarrow> bool" where
  "isInput el =
     (case el of
        None \<Rightarrow> False
      | Some e \<Rightarrow> tagName e = ''INPUT'' \<or> tagName e = ''TEXTAREA'' \<or> tagName e = ''SELECT'')"

text \<open>\<open>isInput || Boolean(active?.isContentEditable)\<close>; the same test is written out for
  \<open>event.target\<close> and \<open>event.relatedTarget\<close> in the focus handlers.\<close>

definition isTextTarget :: "element option \<Rightarrow> bool" where
  "isTextTarget el =
     (isInput el \<or> (case el of None \<Rightarrow> False | Some e \<Rightarrow> isContentEditable e))"

definition height :: "dom \<Rightarrow> int" where
  "height d =
     (case visualViewport d of
        Some v \<Rightarrow> Math_round (vv_height v)
      | None \<Rightarrow> innerHeight d)"

definition offsetTop :: "dom \<Rightarrow> int" where
  "offsetTop d =
     (case visualViewport d of
        Some v \<Rightarrow> max 0 (Math_round (vv_offsetTop v))
      | None \<Rightarrow> 0)"

text \<open>\<open>Math.round(root.clientHeight || window.innerHeight)\<close>: a zero \<open>clientHeight\<close> is
  falsy and falls back to \<open>innerHeight\<close>; rounding an integer changes nothing.\<close>

definition layoutHeight :: "dom \<Rightarrow> int" where
  "layoutHeight d = (if clientHeight d \<noteq> 0 then clientHeight d else innerHeight d)"

definition viewportSum :: "dom \<Rightarrow> int" where
  "viewportSum d = height d + offsetTop d"

definition rawInset :: "dom \<Rightarrow> int" where
  "rawInset d = max 0 (layoutHeight d - viewportSum d)"

definition openThreshold :: "dom \<Rightarrow> int" where
  "openThreshold d = (if isTextTarget (activeElement d) then 120 else 180)"

definition measuredInset :: "dom \<Rightarrow> int" where
  "measuredInset d = (if rawInset d \<ge> openThreshold d then rawInset d else 0)"

subsection \<open>The state and its handlers\<close>

text \<open>The two CSS custom properties hold \<open>None\<close> until they are first set; \<open>Some n\<close>
  stands for the string \<open>n\<close> followed by \<open>px\<close>.\<close>

record kbstate =
  stickyKeyboardInset :: int
  ignoreOpenUntilZero :: bool
  previousHeight :: int
  oc_keyboard_inset :: "int option"
  oc_visual_viewport_offset_top :: "int option"

definition kb_init :: kbstate where
  "kb_init =
     \<lparr> stickyKeyboardInset = 0, ignoreOpenUntilZero = False, previousHeight = 0,
       oc_keyboard_inset = None, oc_visual_viewport_offset_top = None \<rparr>"

definition forceKeyboardClosed :: "kbstate \<Rightarrow> kbstate" where
  "forceKeyboardClosed s =
     s\<lparr> stickyKeyboardInset := 0, ignoreOpenUntilZero := True, oc_keyboard_inset := Some 0 \<rparr>"

text \<open>\<open>!isTextTarget && height > previousHeight + 6\<close>, with \<open>previousHeight\<close> the height
  seen by the previous update.\<close>

definition closingByHeight :: "kbstate \<Rightarrow> dom \<Rightarrow> bool" where
  "closingByHeight s d =
     (\<not> isTextTarget (activeElement d) \<and> height d > previousHeight s + 6)"

text \<open>The branch structure of lines 136-161, in the order of the source.\<close>

definition stepInset :: "kbstate \<Rightarrow> dom \<Rightarrow> kbstate" where
  "stepInset s d =
     (if ignoreOpenUntilZero s then
        (if measuredInset d = 0
         then s\<lparr> ignoreOpenUntilZero := False, stickyKeyboardInset := 0 \<rparr>
         else s\<lparr> stickyKeyboardInset := 0 \<rparr>)
      else if stickyKeyboardInset s = 0 then
        (if measuredInset d > 0 \<and> isTextTarget (activeElement d)
         then s\<lparr> stickyKeyboardInset := measuredInset d \<rparr>
         else s)
      else
        (if measuredInset d = 0 then s\<lparr> stickyKeyboardInset := 0 \<rparr>
         else if closingByHeight s d then forceKeyboardClosed s
         else if measuredInset d > 0 \<and> isTextTarget (activeElement d)
           then s\<lparr> stickyKeyboardInset := measuredInset d \<rparr>
         else if measuredInset d > stickyKeyboardInset s
           then s\<lparr> stickyKeyboardInset := measuredInset d \<rparr>
         else s))"

definition updateVisualViewport :: "kbstate \<Rightarrow> dom \<Rightarrow> kbstate" where
  "updateVisualViewport s d =
     (let s1 = s\<lparr> oc_visual_viewport_offset_top := Some (offsetTop d) \<rparr>;
          s2 = stepInset s1 d
      in s2\<lparr> oc_keyboard_inset := Some (stickyKeyboardInset s2),
              previousHeight := height d \<rparr>)"

text \<open>\<open>handleFocusIn\<close>: a null target returns at once; a text target clears the flag;
  then the update runs on what the DOM shows at that moment.\<close>

definition handleFocusIn :: "kbstate \<Rightarrow> element option \<Rightarrow> dom \<Rightarrow> kbstate" where
  "handleFocusIn s target d =
     (case target of
        None \<Rightarrow> s
      | Some e \<Rightarrow>
          updateVisualViewport
            (if isTextTarget target then s\<lparr> ignoreOpenUntilZero := False \<rparr> else s) d)"

text \<open>\<open>handleFocusOut\<close>: only a text target acts, and only when focus does not move to
  another text target (\<open>event.relatedTarget\<close>).\<close>

definition handleFocusOut :: "kbstate \<Rightarrow> element option \<Rightarrow> element option \<Rightarrow> kbstate" where
  "handleFocusOut s target related =
     (case target of
        None \<Rightarrow> s
      | Some e \<Rightarrow>
          if isTextTarget target
          then (if isTextTarget related then s else forceKeyboardClosed s)
          else s)"

text \<open>The listeners registered by the effect: viewport resize and scroll, window resize
  and orientation change all call \<open>updateVisualViewport\<close>; focus-in and focus-out call
  their handlers.\<close>

datatype kb_event =
    ViewportUpdate dom
  | FocusIn "element option" dom
  | FocusOut "element option" "element option"

fun kb_step :: "kbstate \<Rightarrow> kb_event \<Rightarrow> kbstate" where
  "kb_step s (ViewportUpdate d) = updateVisualViewport s d"
| "kb_step s (FocusIn target d) = handleFocusIn s target d"
| "kb_step s (FocusOut target related) = handleFocusOut s target related"

definition kb_run :: "kbstate \<Rightarrow> kb_event list \<Rightarrow> kbstate" where
  "kb_run s evs = foldl kb_step s evs"

text \<open>The effect calls \<open>updateVisualViewport\<close> once on mount, before any listener
  fires; a run of the mounted component is therefore \<open>kb_run kb_init\<close> on a list of events
  that starts with a \<open>ViewportUpdate\<close>.\<close>

subsection \<open>Concrete readings and states for the examples\<close>

definition el_input :: element where
  "el_input = \<lparr> tagName = ''INPUT'', isContentEditable = False \<rparr>"

definition el_button :: element where
  "el_button = \<lparr> tagName = ''BUTTON'', isContentEditable = False \<rparr>"

definition reading :: "real \<Rightarrow> int \<Rightarrow> element option \<Rightarrow> dom" where
  "reading h layout active =
     \<lparr> visualViewport = Some \<lparr> vv_height = h, vv_offsetTop = 0 \<rparr>,
       innerHeight = layout, clientHeight = layout, activeElement = active \<rparr>"


definition kb_open200 :: kbstate where
  "kb_open200 = kb_run kb_init [ViewportUpdate (reading 600 800 (Some el_input))]"

definition kb_open300 :: kbstate where
  "kb_open300 = kb_run kb_init [ViewportUpdate (reading 500 800 (Some el_input))]"

text \<open>Readings with a negative or fractional visual viewport, with a zero
  \<open>clientHeight\<close>, and without a visual viewport.\<close>

definition vv_pulled :: VisualViewport where
  "vv_pulled = \<lparr> vv_height = 700, vv_offsetTop = - 50 \<rparr>"

definition dom_pulled :: dom where
  "dom_pulled =
     \<lparr> visualViewport = Some vv_pulled, innerHeight = 800, clientHeight = 800,
       activeElement = Some el_input \<rparr>"

definition vv_fraction :: VisualViewport where
  "vv_fraction = \<lparr> vv_height = 3402 / 5, vv_offsetTop = 0 \<rparr>"

definition dom_fraction :: dom where
  "dom_fraction =
     \<lparr> visualViewport = Some vv_fraction, innerHeight = 800, clientHeight = 800,
       activeElement = Some el_input \<rparr>"

definition dom_shifted :: dom where
  "dom_shifted =
     \<lparr> visualViewport = Some \<lparr> vv_height = 1201 / 2, vv_offsetTop = 102 / 5 \<rparr>,
       innerHeight = 900, clientHeight = 800, activeElement = Some el_input \<rparr>"

definition dom_no_client :: dom where
  "dom_no_client =
     \<lparr> visualViewport = Some \<lparr> vv_height = 600, vv_offsetTop = 0 \<rparr>,
       innerHeight = 800, clientHeight = 0, activeElement = None \<rparr>"

definition dom_no_viewport :: dom where
  "dom_no_viewport =
     \<lparr> visualViewport = None, innerHeight = 700, clientHeight = 900,
       activeElement = Some el_button \<rparr>"

text \<open>An event whose reading (if it has one) shows a raw inset below the threshold that
  applies to it.\<close>

fun belowThreshold :: "kb_event \<Rightarrow> bool" where
  "belowThreshold (ViewportUpdate d) = (rawInset d < openThreshold d)"
| "belowThreshold (FocusIn target d) = (rawInset d < openThreshold d)"
| "belowThreshold (FocusOut target related) = True"

text \<open>In every reachable state of the heuristic a set flag goes with a zero inset.\<close>

definition kb_inv :: "kbstate \<Rightarrow> bool" where
  "kb_inv s = (ignoreOpenUntilZero s \<longrightarrow> stickyKeyboardInset s = 0)"

section \<open>Branch and worktree picker of \<open>BranchPickerDialog.tsx\<close>\<close>

subsection \<open>Strings\<close>

text \<open>
  A JavaScript string is a sequence of UTF-16 code units. The model takes \<open>string\<close> with
  each \<open>char\<close> read as one code unit below 256 (ASCII and Latin-1), which covers the
  branch names and queries of the examples. On these code units \<open>trim\<close> strips TAB, LF,
  VT, FF, CR, SPACE and NBSP, and \<open>toLowerCase\<close> changes exactly \<open>A\<close>-\<open>Z\<close> and
  \<open>0xC0\<close>-\<open>0xDE\<close> without \<open>0xD7\<close>, each by setting the bit of value 32.
\<close>

definition isWhiteSpace :: "char \<Rightarrow> bool" where
  "isWhiteSpace c = (of_char c \<in> {9, 10, 11, 12, 13, 32, 160 :: nat})"

definition trim :: "string \<Rightarrow> string" where
  "trim s = rev (dropWhile isWhiteSpace (rev (dropWhile isWhiteSpace s)))"

definition isUpperCase :: "char \<Rightarrow> bool" where
  "isUpperCase c =
     (let n = of_char c :: nat
      in (65 \<le> n \<and> n \<le> 90) \<or> (192 \<le> n \<and> n \<le> 222 \<and> n \<noteq> 215))"

fun toLowerCase_char :: "char \<Rightarrow> char" where
  "toLowerCase_char (Char b0 b1 b2 b3 b4 b5 b6 b7) =
     (if isUpperCase (Char b0 b1 b2 b3 b4 b5 b6 b7)
      then Char b0 b1 b2 b3 b4 True b6 b7
      else Char b0 b1 b2 b3 b4 b5 b6 b7)"

definition toLowerCase :: "string \<Rightarrow> string" where
  "toLowerCase s = map toLowerCase_char s"

text \<open>\<open>s.includes(q)\<close>: \<open>q\<close> occurs in \<open>s\<close> as a contiguous run; the empty \<open>q\<close> always
  does.\<close>

fun includes_str :: "string \<Rightarrow> string \<Rightarrow> bool" where
  "includes_str [] q = (q = [])"
| "includes_str (c # cs) q = (prefix q (c # cs) \<or> includes_str cs q)"

definition startsWith :: "string \<Rightarrow> string \<Rightarrow> bool" where
  "startsWith s p = prefix p s"

text \<open>Truthiness of a value of type \<open>string | null | undefined\<close>: only a non-empty
  string is truthy.\<close>

definition Boolean_str :: "string option \<Rightarrow> bool" where
  "Boolean_str v = (case v of None \<Rightarrow> False | Some s \<Rightarrow> s \<noteq> [])"

subsection \<open>Data\<close>

text \<open>Names follow the source, with four exceptions forced by reserved words and by
  fields sharing one name space: \<open>Project.id\<close> is \<open>project_id\<close>, the prop \<open>open\<close> is
  \<open>isOpen\<close>, \<open>GitBranch.branches\<close> is \<open>details\<close>, and \<open>String.includes\<close> is
  \<open>includes_str\<close>.\<close>

record Project =
  project_id :: string
  path :: string
  normalizedPath :: string
  label :: "string option"

text \<open>Modelled from the spec: the declarations of \<open>GitBranch\<close> and \<open>GitWorktreeInfo\<close>
  (\<open>@/lib/api/types\<close>) are not among the sources. The spec gives a branch listing as a
  mapping from branch name to metadata (current flag, commit hash, ahead and behind counts)
  plus an ordered list of all branch names, and a worktree as a checkout with its branch
  name; the component reads \<open>all\<close>, \<open>branches[name]\<close> and \<open>branch\<close>, the last one
  possibly missing or empty (it is passed through \<open>filter(Boolean)\<close>).\<close>

record GitBranchDetails =
  current :: bool
  commit :: string
  ahead :: "int option"
  behind :: "int option"

record GitBranch =
  all :: "string list"
  details :: "string \<rightharpoonup> GitBranchDetails"

record GitWorktreeInfo =
  worktree :: string
  branch :: "string option"

record ProjectBranchData =
  branches :: "GitBranch option"
  worktrees :: "GitWorktreeInfo list"
  loading :: bool
  error :: "string option"

text \<open>A thrown value is an \<open>Error\<close> carrying a message, or anything else.\<close>

datatype thrown = JsError string | NotAnError

datatype 'a settled = Resolved 'a | Rejected thrown

text \<open>\<open>Promise.all\<close> of two promises: fulfilled with both results when both fulfil,
  rejected with the reason of the promise that rejects first otherwise. The flag says
  whether the second promise settled before the first.\<close>

fun promise_all :: "'a settled \<Rightarrow> 'b settled \<Rightarrow> bool \<Rightarrow> ('a \<times> 'b) settled" where
  "promise_all (Resolved a) (Resolved b) second_first = Resolved (a, b)"
| "promise_all (Rejected e) (Resolved b) second_first = Rejected e"
| "promise_all (Resolved a) (Rejected e) second_first = Rejected e"
| "promise_all (Rejected e1) (Rejected e2) second_first =
     Rejected (if second_first then e2 else e1)"

record props =
  isOpen :: bool
  projects :: "Project list"
  activeProjectId :: "string option"

text \<open>The four \<open>useState\<close> cells, and the two things the component does to the outside:
  calls of the \<open>onOpenChange\<close> prop and lines written with \<open>console.error\<close>.\<close>

record dialog =
  searchQuery :: string
  projectData :: "string \<rightharpoonup> ProjectBranchData"
  expandedProjects :: "string set"
  creatingWorktree :: "string option"
  onOpenChange_calls :: "bool list"
  console_errors :: "(string \<times> thrown) list"

definition dialog_init :: dialog where
  "dialog_init =
     \<lparr> searchQuery = [], projectData = Map.empty, expandedProjects = {},
       creatingWorktree = None, onOpenChange_calls = [], console_errors = [] \<rparr>"

subsection \<open>Loading branches and worktrees (lines 56-98)\<close>

definition setProjectData :: "dialog \<Rightarrow> string \<Rightarrow> ProjectBranchData \<Rightarrow> dialog" where
  "setProjectData st pid data = st\<lparr> projectData := (projectData st)(pid \<mapsto> data) \<rparr>"

text \<open>The part of the \<open>forEach\<close> callback before its \<open>await\<close>.\<close>

definition loadStart :: "dialog \<Rightarrow> Project \<Rightarrow> dialog" where
  "loadStart st project =
     setProjectData st (project_id project)
       \<lparr> branches = None, worktrees = [], loading = True, error = None \<rparr>"

text \<open>\<open>err instanceof Error ? err.message : 'Failed to load'\<close>.\<close>

definition errorMessage :: "thrown \<Rightarrow> string" where
  "errorMessage err = (case err of JsError m \<Rightarrow> m | NotAnError \<Rightarrow> ''Failed to load'')"

text \<open>The part after the \<open>await\<close>: the \<open>try\<close> body on fulfilment, the \<open>catch\<close> body on
  rejection.\<close>

definition loadSettled ::
  "dialog \<Rightarrow> Project \<Rightarrow> (GitBranch \<times> GitWorktreeInfo list) settled \<Rightarrow> dialog" where
  "loadSettled st project outcome =
     (case outcome of
        Resolved (bs, wts) \<Rightarrow>
          setProjectData st (project_id project)
            \<lparr> branches = Some bs, worktrees = wts, loading = False, error = None \<rparr>
      | Rejected err \<Rightarrow>
          setProjectData st (project_id project)
            \<lparr> branches = None, worktrees = [], loading = False,
              error = Some (errorMessage err) \<rparr>)"

text \<open>The effect body up to the first \<open>await\<close> of every callback: all loading states are
  written before any fetch settles.\<close>

definition openEffect :: "props \<Rightarrow> dialog \<Rightarrow> dialog" where
  "openEffect pr st =
     (if \<not> isOpen pr then st\<lparr> searchQuery := [] \<rparr>
      else
        let st1 = (case find (\<lambda>p. Some (project_id p) = activeProjectId pr) (projects pr) of
                     Some activeProject \<Rightarrow> st\<lparr> expandedProjects := {project_id activeProject} \<rparr>
                   | None \<Rightarrow> st)
        in foldl loadStart st1 (projects pr))"

definition toggleProject :: "dialog \<Rightarrow> string \<Rightarrow> dialog" where
  "toggleProject st projectId =
     st\<lparr> expandedProjects :=
          (if projectId \<in> expandedProjects st
           then expandedProjects st - {projectId}
           else insert projectId (expandedProjects st)) \<rparr>"

subsection \<open>Creating a worktree (lines 112-124)\<close>

definition worktreeKey :: "Project \<Rightarrow> string \<Rightarrow> string" where
  "worktreeKey project branchName = project_id project @ '':'' @ branchName"

text \<open>\<open>handleCreateWorktree\<close> before its \<open>await\<close>, and after it: \<open>try\<close> or \<open>catch\<close>, then
  \<open>finally\<close>.\<close>

definition createStart :: "dialog \<Rightarrow> Project \<Rightarrow> string \<Rightarrow> dialog" where
  "createStart st project branchName =
     st\<lparr> creatingWorktree := Some (worktreeKey project branchName) \<rparr>"

definition createSettled :: "dialog \<Rightarrow> unit settled \<Rightarrow> dialog" where
  "createSettled st outcome =
     (let st1 = (case outcome of
                   Resolved _ \<Rightarrow> st\<lparr> onOpenChange_calls := onOpenChange_calls st @ [False] \<rparr>
                 | Rejected err \<Rightarrow>
                     st\<lparr> console_errors :=
                          console_errors st @ [(''Failed to create worktree:'', err)] \<rparr>)
      in st1\<lparr> creatingWorktree := None \<rparr>)"

definition handleCreateWorktree :: "dialog \<Rightarrow> Project \<Rightarrow> string \<Rightarrow> unit settled \<Rightarrow> dialog" where
  "handleCreateWorktree st project branchName outcome =
     createSettled (createStart st project branchName) outcome"

subsection \<open>Filtering (lines 126-135 and 166-172)\<close>

definition filterBranches :: "string list \<Rightarrow> string \<Rightarrow> string list" where
  "filterBranches bs query =
     (if trim query = [] then bs
      else let lowerQuery = toLowerCase query
           in filter (\<lambda>b. includes_str (toLowerCase b) lowerQuery) bs)"

definition gitRepoProjects :: "props \<Rightarrow> dialog \<Rightarrow> Project list" where
  "gitRepoProjects pr st =
     filter
       (\<lambda>p. case projectData st (project_id p) of
               None \<Rightarrow> False
             | Some data \<Rightarrow>
                 \<not> Boolean_str (error data) \<and> (loading data \<or> branches data \<noteq> None))
       (projects pr)"

text \<open>\<open>new Set(worktrees.map(w => w.branch).filter(Boolean))\<close>.\<close>

definition worktreeBranches :: "GitWorktreeInfo list \<Rightarrow> string option set" where
  "worktreeBranches wts = set (filter Boolean_str (map branch wts))"

definition allBranches :: "ProjectBranchData option \<Rightarrow> string list" where
  "allBranches data =
     (case data of
        None \<Rightarrow> []
      | Some d \<Rightarrow> (case branches d of None \<Rightarrow> [] | Some b \<Rightarrow> all b))"

definition worktreesOf :: "ProjectBranchData option \<Rightarrow> GitWorktreeInfo list" where
  "worktreesOf data = (case data of None \<Rightarrow> [] | Some d \<Rightarrow> worktrees d)"

definition localBranches :: "ProjectBranchData option \<Rightarrow> string \<Rightarrow> string list" where
  "localBranches data query =
     filter (\<lambda>b. Some b \<notin> worktreeBranches (worktreesOf data))
       (filter (\<lambda>b. \<not> startsWith b ''remotes/'')
         (filterBranches (allBranches data) query))"

subsection \<open>What is rendered (lines 137-298)\<close>

text \<open>The rendered tree, reduced to what depends on the component's state: per listed
  project its header (title, spinner, branch count) and, when expanded, one of four
  panels.\<close>

record branchRow =
  branchName :: string
  isCurrent :: bool
  commitShown :: "string option"
  aheadShown :: "int option"
  behindShown :: "int option"
  isCreating :: bool

datatype panel =
    LoadingPanel
  | ErrorPanel string
  | EmptyPanel string
  | BranchPanel "branchRow list"

record projectView =
  view_key :: string
  title :: string
  spinner :: bool
  branchCount :: "nat option"
  panel :: "panel option"

datatype view = NoRepositories | ProjectViews "projectView list"

text \<open>\<open>s.split('/').pop()\<close>: what follows the last slash.\<close>

definition lastSegment :: "string \<Rightarrow> string" where
  "lastSegment s = rev (takeWhile (\<lambda>c. c \<noteq> CHR ''/'') (rev s))"

definition projectTitle :: "Project \<Rightarrow> string" where
  "projectTitle project =
     (if Boolean_str (label project) then (case label project of Some l \<Rightarrow> l | None \<Rightarrow> [])
      else if lastSegment (normalizedPath project) \<noteq> [] then lastSegment (normalizedPath project)
      else normalizedPath project)"

definition shownCount :: "int option \<Rightarrow> int option" where
  "shownCount n = (case n of None \<Rightarrow> None | Some k \<Rightarrow> if k > 0 then Some k else None)"

definition renderRow ::
  "dialog \<Rightarrow> Project \<Rightarrow> ProjectBranchData option \<Rightarrow> string \<Rightarrow> branchRow" where
  "renderRow st project data name =
     (let branchDetails =
            (case data of
               None \<Rightarrow> None
             | Some d \<Rightarrow> (case branches d of None \<Rightarrow> None | Some b \<Rightarrow> details b name))
      in \<lparr> branchName = name,
           isCurrent = (case branchDetails of None \<Rightarrow> False | Some bd \<Rightarrow> current bd),
           commitShown =
             (case branchDetails of
                None \<Rightarrow> None
              | Some bd \<Rightarrow> if commit bd \<noteq> [] then Some (take 7 (commit bd)) else None),
           aheadShown = (case branchDetails of None \<Rightarrow> None | Some bd \<Rightarrow> shownCount (ahead bd)),
           behindShown = (case branchDetails of None \<Rightarrow> None | Some bd \<Rightarrow> shownCount (behind bd)),
           isCreating = (creatingWorktree st = Some (worktreeKey project name)) \<rparr>)"

text \<open>The conditional chain of lines 203-287: loading, then error, then the empty list,
  then the rows.\<close>

definition renderPanel :: "dialog \<Rightarrow> Project \<Rightarrow> ProjectBranchData option \<Rightarrow> panel" where
  "renderPanel st project data =
     (if (case data of None \<Rightarrow> False | Some d \<Rightarrow> loading d) then LoadingPanel
      else if (case data of None \<Rightarrow> False | Some d \<Rightarrow> Boolean_str (error d))
        then ErrorPanel (case data of None \<Rightarrow> [] | Some d \<Rightarrow> (case error d of None \<Rightarrow> [] | Some m \<Rightarrow> m))
      else if localBranches data (searchQuery st) = []
        then EmptyPanel (if searchQuery st \<noteq> [] then ''No matching branches''
                         else ''No branches found'')
      else BranchPanel (map (renderRow st project data) (localBranches data (searchQuery st))))"

definition renderProject :: "dialog \<Rightarrow> Project \<Rightarrow> projectView" where
  "renderProject st project =
     (let data = projectData st (project_id project)
      in \<lparr> view_key = project_id project,
           title = projectTitle project,
           spinner = (case data of None \<Rightarrow> False | Some d \<Rightarrow> loading d),
           branchCount =
             (if (case data of None \<Rightarrow> False | Some d \<Rightarrow> branches d \<noteq> None)
              then Some (length (localBranches data (searchQuery st))) else None),
           panel =
             (if project_id project \<in> expandedProjects st
              then Some (renderPanel st project data) else None) \<rparr>)"

definition render :: "props \<Rightarrow> dialog \<Rightarrow> view" where
  "render pr st =
     (if gitRepoProjects pr st = [] then NoRepositories
      else ProjectViews (map (renderProject st) (gitRepoProjects pr st)))"

subsection \<open>Runs of the dialog\<close>

text \<open>Everything that changes the component's state: a run of the effect, the settling
  of one project's two fetches, a click on a project header, typing in the search box,
  and the two halves of \<open>handleCreateWorktree\<close>.\<close>

datatype dialog_event =
    Effect props
  | LoadSettled Project "GitBranch settled" "GitWorktreeInfo list settled" bool
  | ToggleProject string
  | SetSearchQuery string
  | CreateStart Project string
  | CreateSettled "unit settled"

fun dialog_step :: "dialog \<Rightarrow> dialog_event \<Rightarrow> dialog" where
  "dialog_step st (Effect pr) = openEffect pr st"
| "dialog_step st (LoadSettled project ob ow second_first) =
     loadSettled st project (promise_all ob ow second_first)"
| "dialog_step st (ToggleProject projectId) = toggleProject st projectId"
| "dialog_step st (SetSearchQuery q) = st\<lparr> searchQuery := q \<rparr>"
| "dialog_step st (CreateStart project name) = createStart st project name"
| "dialog_step st (CreateSettled outcome) = createSettled st outcome"

definition dialog_run :: "dialog \<Rightarrow> dialog_event list \<Rightarrow> dialog" where
  "dialog_run st evs = foldl dialog_step st evs"

text \<open>The three shapes of a per-project load state.\<close>

definition isLoadingState :: "ProjectBranchData \<Rightarrow> bool" where
  "isLoadingState d =
     (loading d \<and> branches d = None \<and> worktrees d = [] \<and> error d = None)"

definition isSuccessState :: "ProjectBranchData \<Rightarrow> bool" where
  "isSuccessState d = (\<not> loading d \<and> error d = None \<and> branches d \<noteq> None)"

definition isErrorState :: "ProjectBranchData \<Rightarrow> bool" where
  "isErrorState d =
     (\<not> loading d \<and> branches d = None \<and> worktrees d = [] \<and> error d \<noteq> None)"

subsection \<open>Concrete data for the examples\<close>

definition proj1 :: Project where
  "proj1 = \<lparr> project_id = ''p1'', path = ''/w/app'', normalizedPath = ''/w/app'',
             label = None \<rparr>"

definition proj2 :: Project where
  "proj2 = \<lparr> project_id = ''p2'', path = ''/w/lib'', normalizedPath = ''/w/lib'',
             label = None \<rparr>"

definition props1 :: props where
  "props1 = \<lparr> isOpen = True, projects = [proj1, proj2], activeProjectId = Some ''p1'' \<rparr>"

definition listing1 :: GitBranch where
  "listing1 = \<lparr> all = [''main'', ''Feature/Login'', ''remotes/origin/main'', ''dev''],
                details = Map.empty \<rparr>"

definition wt_dev :: GitWorktreeInfo where
  "wt_dev = \<lparr> worktree = ''/w/app-dev'', branch = Some ''dev'' \<rparr>"

definition loaded1 :: ProjectBranchData where
  "loaded1 = \<lparr> branches = Some listing1, worktrees = [wt_dev], loading = False,
               error = None \<rparr>"

definition props_single :: props where
  "props_single = \<lparr> isOpen = True, projects = [proj1], activeProjectId = Some ''p1'' \<rparr>"

definition dialog_loading :: dialog where
  "dialog_loading = dialog_run dialog_init [Effect props1]"

definition not_a_repo :: thrown where
  "not_a_repo = JsError ''not a git repository''"

subsection \<open>Invariant used in the proofs\<close>

definition shaped :: "ProjectBranchData \<Rightarrow> bool" where
  "shaped d =
     ((isLoadingState d \<and> \<not> isSuccessState d \<and> \<not> isErrorState d) \<or>
      (\<not> isLoadingState d \<and> isSuccessState d \<and> \<not> isErrorState d) \<or>
      (\<not> isLoadingState d \<and> \<not> isSuccessState d \<and> isErrorState d))"

text \<open>A stored branch listing comes, together with the stored worktree list, from one
  settled pair of fetches among the events so far.\<close>

definition joined :: "dialog_event list \<Rightarrow> string \<Rightarrow> ProjectBranchData \<Rightarrow> bool" where
  "joined evs pid d =
     (\<forall>b. branches d = Some b \<longrightarrow>
        (\<exists>p sf. project_id p = pid \<and>
           LoadSettled p (Resolved b) (Resolved (worktrees d)) sf \<in> set evs))"

section \<open>Properties of the keyboard-inset heuristic\<close>

lemmas kb_defs = updateVisualViewport_def stepInset_def forceKeyboardClosed_def
  closingByHeight_def handleFocusIn_def handleFocusOut_def

lemmas dom_defs = measuredInset_def rawInset_def viewportSum_def layoutHeight_def height_def
  offsetTop_def openThreshold_def isTextTarget_def isInput_def Math_round_def

lemmas kb_example_defs = kb_run_def kb_init_def reading_def el_input_def el_button_def
  kb_open200_def kb_open300_def

lemma measuredInset_nonneg: "0 \<le> measuredInset d"
  by (simp add: measuredInset_def rawInset_def)

lemma measuredInset_below: "rawInset d < openThreshold d \<Longrightarrow> measuredInset d = 0"
  by (simp add: measuredInset_def)

lemma update_sticky_zero:
  "measuredInset d = 0 \<Longrightarrow> stickyKeyboardInset (updateVisualViewport s d) = 0"
  by (simp add: updateVisualViewport_def stepInset_def Let_def)

lemma update_ignoring:
  "ignoreOpenUntilZero s \<Longrightarrow> stickyKeyboardInset (updateVisualViewport s d) = 0"
  by (simp add: updateVisualViewport_def stepInset_def Let_def)

lemma kb_inv_update: "kb_inv s \<Longrightarrow> kb_inv (updateVisualViewport s d)"
  by (simp add: kb_inv_def updateVisualViewport_def stepInset_def forceKeyboardClosed_def
      Let_def)

lemma kb_inv_step:
  assumes "kb_inv s"
  shows "kb_inv (kb_step s ev)"
proof (cases ev)
  case (ViewportUpdate d)
  then show ?thesis using assms by (simp add: kb_inv_update)
next
  case (FocusIn t d)
  have "kb_inv (s\<lparr>ignoreOpenUntilZero := False\<rparr>)" by (simp add: kb_inv_def)
  with assms show ?thesis using FocusIn
    by (auto simp: handleFocusIn_def kb_inv_update split: option.splits)
next
  case (FocusOut t r)
  then show ?thesis using assms
    by (auto simp: handleFocusOut_def forceKeyboardClosed_def kb_inv_def split: option.splits)
qed

lemma kb_inv_run: "kb_inv s \<Longrightarrow> kb_inv (kb_run s evs)"
  unfolding kb_run_def by (induction evs arbitrary: s) (simp_all add: kb_inv_step)

lemma kb_inv_init: "kb_inv kb_init"
  by (simp add: kb_inv_def kb_init_def)

text \<open>Outside the ignoring branch an update lowers the inset for one of three reasons.\<close>

lemma update_decrease:
  assumes "\<not> ignoreOpenUntilZero s"
    and "stickyKeyboardInset (updateVisualViewport s d) < stickyKeyboardInset s"
  shows "measuredInset d = 0 \<or> closingByHeight s d \<or>
     (isTextTarget (activeElement d) \<and>
      stickyKeyboardInset (updateVisualViewport s d) = measuredInset d)"
  using assms measuredInset_nonneg [of d]
  by (auto simp: updateVisualViewport_def stepInset_def forceKeyboardClosed_def
      closingByHeight_def Let_def split: if_splits)

lemma quiet_step:
  "belowThreshold ev \<Longrightarrow> stickyKeyboardInset s = 0 \<Longrightarrow> stickyKeyboardInset (kb_step s ev) = 0"
  by (cases ev)
    (auto simp: handleFocusIn_def handleFocusOut_def forceKeyboardClosed_def
      update_sticky_zero measuredInset_below split: option.splits)

lemma quiet_run:
  "\<forall>ev \<in> set evs. belowThreshold ev \<Longrightarrow> stickyKeyboardInset s = 0 \<Longrightarrow>
   stickyKeyboardInset (kb_run s evs) = 0"
  unfolding kb_run_def by (induction evs arbitrary: s) (simp_all add: quiet_step)

text \<open>
  Claim C1, as amended. When the inset is positive and the closing-by-height condition
  holds (the viewport height grew by more than 6px since the previous update and no text
  input is focused), the update forces the inset to 0; the flag is set exactly when the
  measured inset of that update is not 0, because the test for a zero reading comes first
  and drops the inset without touching the flag. While the flag is set, every update
  holds the inset at 0 and clears the flag exactly when the measured inset reads 0.
\<close>

theorem closing_by_height_and_ignore_hold:
  "(0 < stickyKeyboardInset s \<and> closingByHeight s d \<longrightarrow>
      stickyKeyboardInset (updateVisualViewport s d) = 0 \<and>
      oc_keyboard_inset (updateVisualViewport s d) = Some 0 \<and>
      (ignoreOpenUntilZero (updateVisualViewport s d) \<longleftrightarrow> measuredInset d \<noteq> 0)) \<and>
   (ignoreOpenUntilZero s \<longrightarrow>
      stickyKeyboardInset (updateVisualViewport s d) = 0 \<and>
      oc_keyboard_inset (updateVisualViewport s d) = Some 0 \<and>
      (ignoreOpenUntilZero (updateVisualViewport s d) \<longleftrightarrow> measuredInset d \<noteq> 0))"
  by (simp add: kb_defs Let_def)

text \<open>The amended statement at work: from an inset of 200 (previous height 600), a
  reading of height 610 with nothing focused measures 190 and force-closes with the flag
  set; the next reading of the full height 800 measures 0 and clears the flag.\<close>

theorem closing_by_height_and_ignore_hold_witness:
  "0 < stickyKeyboardInset kb_open200 \<and>
   closingByHeight kb_open200 (reading 610 800 None) \<and>
   measuredInset (reading 610 800 None) = 190 \<and>
   stickyKeyboardInset (updateVisualViewport kb_open200 (reading 610 800 None)) = 0 \<and>
   ignoreOpenUntilZero (updateVisualViewport kb_open200 (reading 610 800 None)) \<and>
   measuredInset (reading 800 800 None) = 0 \<and>
   stickyKeyboardInset
     (updateVisualViewport (updateVisualViewport kb_open200 (reading 610 800 None))
        (reading 800 800 None)) = 0 \<and>
   \<not> ignoreOpenUntilZero
     (updateVisualViewport (updateVisualViewport kb_open200 (reading 610 800 None))
        (reading 800 800 None))"
proof -
  let ?d = "reading 610 800 None"
  let ?s1 = "updateVisualViewport kb_open200 ?d"
  let ?d2 = "reading 800 800 None"
  have h: "0 < stickyKeyboardInset kb_open200 \<and> closingByHeight kb_open200 ?d"
    by (simp add: kb_example_defs kb_defs dom_defs)
  have m: "measuredInset ?d = 190"
    by (simp add: kb_example_defs dom_defs)
  have m2: "measuredInset ?d2 = 0"
    by (simp add: kb_example_defs dom_defs)
  have a: "stickyKeyboardInset ?s1 = 0 \<and> ignoreOpenUntilZero ?s1"
    using closing_by_height_and_ignore_hold [of kb_open200 ?d] h m by simp
  then have b: "stickyKeyboardInset (updateVisualViewport ?s1 ?d2) = 0 \<and>
      \<not> ignoreOpenUntilZero (updateVisualViewport ?s1 ?d2)"
    using closing_by_height_and_ignore_hold [of ?s1 ?d2] m2 by simp
  show ?thesis using h m m2 a b by simp
qed

text \<open>The claim as written fails on the layout of height 800 with an input focused at
  viewport height 600 (inset 200), followed by height 780 with nothing focused: the
  closing-by-height condition holds, the raw inset 20 is below 180, so the measured inset
  is 0 and the inset drops to 0 with the flag left unset.\<close>

theorem closing_by_height_flag_counterexample:
  "0 < stickyKeyboardInset kb_open200 \<and>
   closingByHeight kb_open200 (reading 780 800 None) \<and>
   stickyKeyboardInset (updateVisualViewport kb_open200 (reading 780 800 None)) = 0 \<and>
   \<not> ignoreOpenUntilZero (updateVisualViewport kb_open200 (reading 780 800 None))"
  by (simp add: kb_example_defs kb_defs dom_defs)

text \<open>
  Claim C2, as amended. In every run of the mounted component (any sequence of viewport
  updates, focus-ins and focus-outs), a step lowers the inset only for one of these
  reasons: the measured inset reads 0; closing-by-height fires; a focus-out leaves a text
  input for something that is not one; or a text input is focused, in which case the inset
  is set to the measured inset even when that is smaller.
\<close>

theorem sticky_lowered_only_by_listed_causes:
  assumes "s = kb_run kb_init evs"
    and "stickyKeyboardInset (kb_step s ev) < stickyKeyboardInset s"
  shows "case ev of
           ViewportUpdate d \<Rightarrow>
             measuredInset d = 0 \<or> closingByHeight s d \<or>
             (isTextTarget (activeElement d) \<and>
              stickyKeyboardInset (kb_step s ev) = measuredInset d)
         | FocusIn target d \<Rightarrow>
             measuredInset d = 0 \<or> closingByHeight s d \<or>
             (isTextTarget (activeElement d) \<and>
              stickyKeyboardInset (kb_step s ev) = measuredInset d)
         | FocusOut target related \<Rightarrow> isTextTarget target \<and> \<not> isTextTarget related"
proof -
  have inv: "kb_inv s"
    using assms(1) kb_inv_run [OF kb_inv_init] by simp
  show ?thesis
  proof (cases ev)
    case (ViewportUpdate d)
    have "\<not> ignoreOpenUntilZero s"
    proof
      assume i: "ignoreOpenUntilZero s"
      then have "stickyKeyboardInset s = 0" using inv by (simp add: kb_inv_def)
      moreover have "stickyKeyboardInset (updateVisualViewport s d) = 0"
        using i by (rule update_ignoring)
      ultimately show False using assms(2) ViewportUpdate by simp
    qed
    then show ?thesis
      using update_decrease [of s d] assms(2) ViewportUpdate by simp
  next
    case (FocusIn t d)
    show ?thesis
    proof (cases t)
      case None
      then show ?thesis using assms(2) FocusIn by (simp add: handleFocusIn_def)
    next
      case (Some e)
      define s0 where "s0 = (if isTextTarget t then s\<lparr>ignoreOpenUntilZero := False\<rparr> else s)"
      have step: "kb_step s ev = updateVisualViewport s0 d"
        using FocusIn Some by (simp add: handleFocusIn_def s0_def)
      have st: "stickyKeyboardInset s0 = stickyKeyboardInset s"
        "previousHeight s0 = previousHeight s"
        by (simp_all add: s0_def)
      have ni: "\<not> ignoreOpenUntilZero s0"
      proof
        assume i: "ignoreOpenUntilZero s0"
        then have "ignoreOpenUntilZero s" by (simp add: s0_def split: if_splits)
        then have "stickyKeyboardInset s = 0" using inv by (simp add: kb_inv_def)
        moreover have "stickyKeyboardInset (updateVisualViewport s0 d) = 0"
          using i by (rule update_ignoring)
        ultimately show False using assms(2) step by simp
      qed
      have "closingByHeight s0 d = closingByHeight s d"
        by (simp add: closingByHeight_def st)
      then show ?thesis
        using update_decrease [OF ni, of d] assms(2) step st FocusIn by simp
    qed
  next
    case (FocusOut t r)
    then show ?thesis using assms(2)
      by (auto simp: handleFocusOut_def forceKeyboardClosed_def
          split: option.splits if_splits)
  qed
qed

text \<open>The amended statement at work, on the run that refutes the claim as written: with
  an input focused the inset first reads 300; the next reading, still with the input
  focused, measures 200 and the inset follows it down.\<close>

theorem sticky_lowered_only_by_listed_causes_witness:
  "stickyKeyboardInset
     (kb_step kb_open300 (ViewportUpdate (reading 600 800 (Some el_input))))
     < stickyKeyboardInset kb_open300 \<and>
   measuredInset (reading 600 800 (Some el_input)) = 200 \<and>
   \<not> closingByHeight kb_open300 (reading 600 800 (Some el_input)) \<and>
   isTextTarget (activeElement (reading 600 800 (Some el_input))) \<and>
   stickyKeyboardInset
     (kb_step kb_open300 (ViewportUpdate (reading 600 800 (Some el_input))))
     = measuredInset (reading 600 800 (Some el_input))"
proof -
  let ?d = "reading 600 800 (Some el_input)"
  have h: "stickyKeyboardInset (kb_step kb_open300 (ViewportUpdate ?d))
      < stickyKeyboardInset kb_open300"
    by (simp add: kb_example_defs kb_defs dom_defs)
  have m: "measuredInset ?d = 200"
    by (simp add: kb_example_defs dom_defs)
  have c: "\<not> closingByHeight kb_open300 ?d"
    by (simp add: kb_example_defs kb_defs dom_defs)
  have "isTextTarget (activeElement ?d) \<and>
      stickyKeyboardInset (kb_step kb_open300 (ViewportUpdate ?d)) = measuredInset ?d"
    using sticky_lowered_only_by_listed_causes [OF kb_open300_def h] m c by simp
  then show ?thesis using h m c by simp
qed

text \<open>The claim as written fails here: the inset was set to 300 while an input was
  focused; a later update, with the input still focused, a measured inset of 200 (not 0)
  and no force-close, lowers it to 200.\<close>

theorem sticky_tracks_downward_counterexample:
  "isTextTarget (Some el_input) \<and>
   stickyKeyboardInset kb_open300 = 300 \<and>
   \<not> ignoreOpenUntilZero kb_open300 \<and>
   measuredInset (reading 600 800 (Some el_input)) = 200 \<and>
   \<not> closingByHeight kb_open300 (reading 600 800 (Some el_input)) \<and>
   stickyKeyboardInset (updateVisualViewport kb_open300 (reading 600 800 (Some el_input)))
     = 200 \<and>
   \<not> ignoreOpenUntilZero
       (updateVisualViewport kb_open300 (reading 600 800 (Some el_input)))"
  by (simp add: kb_example_defs kb_defs dom_defs)

text \<open>
  Claim C3. From a state with inset 0 and the flag unset, an update raises the inset if and
  only if the measured inset is positive and a text input is focused, and it raises it to
  the measured inset; otherwise the inset stays 0. And from an inset of 0, along every
  sequence of events whose readings all show a raw inset below the threshold that applies
  to them, the inset is 0 after every prefix of the sequence.
\<close>

theorem raise_from_zero_iff_and_quiet_run:
  "(stickyKeyboardInset s = 0 \<and> \<not> ignoreOpenUntilZero s \<longrightarrow>
      (stickyKeyboardInset s < stickyKeyboardInset (updateVisualViewport s d) \<longleftrightarrow>
         0 < measuredInset d \<and> isTextTarget (activeElement d)) \<and>
      stickyKeyboardInset (updateVisualViewport s d) =
        (if 0 < measuredInset d \<and> isTextTarget (activeElement d)
         then measuredInset d else 0)) \<and>
   (stickyKeyboardInset s = 0 \<and> (\<forall>ev \<in> set evs. belowThreshold ev) \<longrightarrow>
      (\<forall>n. stickyKeyboardInset (kb_run s (take n evs)) = 0))"
proof -
  have a: "stickyKeyboardInset s = 0 \<and> \<not> ignoreOpenUntilZero s \<longrightarrow>
      (stickyKeyboardInset s < stickyKeyboardInset (updateVisualViewport s d) \<longleftrightarrow>
         0 < measuredInset d \<and> isTextTarget (activeElement d)) \<and>
      stickyKeyboardInset (updateVisualViewport s d) =
        (if 0 < measuredInset d \<and> isTextTarget (activeElement d)
         then measuredInset d else 0)"
    by (simp add: updateVisualViewport_def stepInset_def Let_def)
  have b: "stickyKeyboardInset (kb_run s (take n evs)) = 0"
    if z: "stickyKeyboardInset s = 0" and q: "\<forall>ev \<in> set evs. belowThreshold ev" for n
  proof -
    have "\<forall>ev \<in> set (take n evs). belowThreshold ev"
      using q by (auto dest: in_set_takeD)
    then show ?thesis using z by (rule quiet_run)
  qed
  show ?thesis using a b by blast
qed

text \<open>Both halves at concrete inputs: the first reading after mount, with an input
  focused and 200 of 800 covered, raises the inset to 200; three events whose raw insets
  (100 with an input focused, 150 and 0 without) stay below 120 and 180 leave it at 0.\<close>

theorem raise_from_zero_iff_and_quiet_run_witness:
  "stickyKeyboardInset kb_init = 0 \<and> \<not> ignoreOpenUntilZero kb_init \<and>
   0 < measuredInset (reading 600 800 (Some el_input)) \<and>
   stickyKeyboardInset (updateVisualViewport kb_init (reading 600 800 (Some el_input)))
     = 200 \<and>
   belowThreshold (ViewportUpdate (reading 700 800 (Some el_input))) \<and>
   belowThreshold (FocusIn (Some el_button) (reading 650 800 (Some el_button))) \<and>
   belowThreshold (ViewportUpdate (reading 800 800 None)) \<and>
   stickyKeyboardInset
     (kb_run kb_init
        [ViewportUpdate (reading 700 800 (Some el_input)),
         FocusIn (Some el_button) (reading 650 800 (Some el_button)),
         ViewportUpdate (reading 800 800 None)]) = 0"
proof -
  let ?d = "reading 600 800 (Some el_input)"
  let ?evs = "[ViewportUpdate (reading 700 800 (Some el_input)),
         FocusIn (Some el_button) (reading 650 800 (Some el_button)),
         ViewportUpdate (reading 800 800 None)]"
  have h1: "stickyKeyboardInset kb_init = 0 \<and> \<not> ignoreOpenUntilZero kb_init"
    by (simp add: kb_init_def)
  have m: "measuredInset ?d = 200 \<and> isTextTarget (activeElement ?d)"
    by (simp add: kb_example_defs dom_defs)
  have q1: "belowThreshold (ViewportUpdate (reading 700 800 (Some el_input)))"
    by (simp add: kb_example_defs dom_defs)
  have q2: "belowThreshold (FocusIn (Some el_button) (reading 650 800 (Some el_button)))"
    by (simp add: kb_example_defs dom_defs)
  have q3: "belowThreshold (ViewportUpdate (reading 800 800 None))"
    by (simp add: kb_example_defs dom_defs)
  have h2: "\<forall>ev \<in> set ?evs. belowThreshold ev"
    using q1 q2 q3 by simp
  note t = raise_from_zero_iff_and_quiet_run [of kb_init ?d ?evs]
  have a: "stickyKeyboardInset (updateVisualViewport kb_init ?d) = 200"
    using t h1 m by simp
  have "stickyKeyboardInset (kb_run kb_init (take 3 ?evs)) = 0"
    using t h1 h2 by blast
  then have b: "stickyKeyboardInset (kb_run kb_init ?evs) = 0" by simp
  show ?thesis using h1 m a q1 q2 q3 b by simp
qed

text \<open>
  Claim C4, as amended. The measured inset is max(0, layout height - (viewport height +
  viewport offset)) when that is at or above the threshold and 0 otherwise, where the
  three quantities are not the raw readings but: the visual viewport's height rounded to
  the nearest integer (the window's inner height when there is no visual viewport); the
  visual viewport's top offset rounded and then clamped below at 0 (0 when there is no
  visual viewport); and the root's client height, or the window's inner height when the
  client height is 0. The threshold is 120 when the focused element is an INPUT, TEXTAREA
  or SELECT or is content-editable, and 180 otherwise.
\<close>

theorem measured_inset_from_readings:
  "measuredInset d =
     (let viewportHeight =
            (case visualViewport d of
               Some v \<Rightarrow> \<lfloor>vv_height v + 1 / 2\<rfloor>
             | None \<Rightarrow> innerHeight d);
          viewportOffset =
            (case visualViewport d of
               Some v \<Rightarrow> max 0 \<lfloor>vv_offsetTop v + 1 / 2\<rfloor>
             | None \<Rightarrow> 0);
          layout = (if clientHeight d \<noteq> 0 then clientHeight d else innerHeight d);
          threshold =
            (if (\<exists>e. activeElement d = Some e \<and>
                     (tagName e = ''INPUT'' \<or> tagName e = ''TEXTAREA'' \<or>
                      tagName e = ''SELECT'' \<or> isContentEditable e))
             then 120 else 180);
          raw = max 0 (layout - (viewportHeight + viewportOffset))
      in if threshold \<le> raw then raw else 0)"
proof -
  have t: "isTextTarget (activeElement d) \<longleftrightarrow>
      (\<exists>e. activeElement d = Some e \<and>
         (tagName e = ''INPUT'' \<or> tagName e = ''TEXTAREA'' \<or> tagName e = ''SELECT'' \<or>
          isContentEditable e))"
    by (auto simp: isTextTarget_def isInput_def split: option.splits)
  show ?thesis
    unfolding measuredInset_def rawInset_def viewportSum_def openThreshold_def t
      layoutHeight_def height_def offsetTop_def Math_round_def Let_def
    by (simp split: option.splits)
qed

text \<open>The amended formula at five readings. A viewport of height 600.5 at offset 20.4
  on a layout of 800, input focused: 800 - (601 + 20) = 179. A zero client height falls
  back to the inner height 800: 800 - 600 = 200 with nothing focused. Without a visual
  viewport the inner height 700 is the viewport height: 900 - 700 = 200 with a button
  focused. An offset of -50 counts as 0: 800 - 700 = 100 is below 120. A height of 680.4
  counts as 680: 800 - 680 = 120 reaches the threshold.\<close>

theorem measured_inset_from_readings_witness:
  "measuredInset dom_shifted = 179 \<and>
   measuredInset dom_no_client = 200 \<and>
   measuredInset dom_no_viewport = 200 \<and>
   measuredInset dom_pulled = 0 \<and>
   measuredInset dom_fraction = 120"
proof -
  have a: "measuredInset dom_shifted = 179"
    using measured_inset_from_readings [of dom_shifted]
    by (simp add: dom_shifted_def el_input_def Let_def)
  have b: "measuredInset dom_no_client = 200"
    using measured_inset_from_readings [of dom_no_client]
    by (simp add: dom_no_client_def Let_def)
  have c: "measuredInset dom_no_viewport = 200"
    using measured_inset_from_readings [of dom_no_viewport]
    by (simp add: dom_no_viewport_def el_button_def Let_def)
  have d: "measuredInset dom_pulled = 0"
    using measured_inset_from_readings [of dom_pulled]
    by (simp add: dom_pulled_def vv_pulled_def el_input_def Let_def)
  have e: "measuredInset dom_fraction = 120"
    using measured_inset_from_readings [of dom_fraction]
    by (simp add: dom_fraction_def vv_fraction_def el_input_def Let_def)
  show ?thesis using a b c d e by simp
qed

text \<open>The claim as written, over the readings themselves, fails twice with an input
  focused on a layout of 800. At viewport height 700 and offset -50 the stated quantity is
  800 - (700 - 50) = 150, at or above 120, yet the measured inset is 0. At viewport height
  680.4 and offset 0 the stated quantity is 119.6, below 120, yet the measured inset is
  120.\<close>

theorem measured_inset_raw_readings_counterexample:
  "visualViewport dom_pulled = Some vv_pulled \<and>
   openThreshold dom_pulled = 120 \<and>
   max 0 (real_of_int (clientHeight dom_pulled)
            - (vv_height vv_pulled + vv_offsetTop vv_pulled)) = 150 \<and>
   measuredInset dom_pulled = 0 \<and>
   visualViewport dom_fraction = Some vv_fraction \<and>
   openThreshold dom_fraction = 120 \<and>
   max 0 (real_of_int (clientHeight dom_fraction)
            - (vv_height vv_fraction + vv_offsetTop vv_fraction)) = 598 / 5 \<and>
   measuredInset dom_fraction = 120"
  by (simp add: dom_pulled_def vv_pulled_def dom_fraction_def vv_fraction_def el_input_def
      dom_defs)

text \<open>
  Claim C5. On a focus-out whose source is a text input: when the new focus target is not
  a text input, the inset is forced to 0 and the flag is set, whatever the viewport shows
  (the handler reads no measurement); when the new focus target is a text input, the
  state is left as it was.
\<close>

theorem focus_out_force_close:
  "isTextTarget target \<Longrightarrow>
   (\<not> isTextTarget related \<longrightarrow>
      stickyKeyboardInset (handleFocusOut s target related) = 0 \<and>
      ignoreOpenUntilZero (handleFocusOut s target related) \<and>
      oc_keyboard_inset (handleFocusOut s target related) = Some 0) \<and>
   (isTextTarget related \<longrightarrow> handleFocusOut s target related = s)"
  by (cases target)
    (simp_all add: handleFocusOut_def forceKeyboardClosed_def isTextTarget_def isInput_def)

text \<open>With the keyboard believed open at 200: leaving the input for a button closes,
  leaving it for nothing closes, and moving to another input changes nothing.\<close>

theorem focus_out_force_close_witness:
  "isTextTarget (Some el_input) \<and> \<not> isTextTarget (Some el_button) \<and>
   stickyKeyboardInset kb_open200 = 200 \<and>
   stickyKeyboardInset (handleFocusOut kb_open200 (Some el_input) (Some el_button)) = 0 \<and>
   ignoreOpenUntilZero (handleFocusOut kb_open200 (Some el_input) (Some el_button)) \<and>
   stickyKeyboardInset (handleFocusOut kb_open200 (Some el_input) None) = 0 \<and>
   handleFocusOut kb_open200 (Some el_input) (Some el_input) = kb_open200"
proof -
  have i: "isTextTarget (Some el_input)"
    by (simp add: isTextTarget_def isInput_def el_input_def)
  have b: "\<not> isTextTarget (Some el_button)"
    by (simp add: isTextTarget_def isInput_def el_button_def)
  have n: "\<not> isTextTarget None"
    by (simp add: isTextTarget_def isInput_def)
  have o: "stickyKeyboardInset kb_open200 = 200"
    by (simp add: kb_example_defs kb_defs dom_defs)
  note t = focus_out_force_close [OF i]
  show ?thesis
    using i b o t [of "Some el_button" kb_open200] t [of None kb_open200] n
      t [of "Some el_input" kb_open200]
    by simp
qed

section \<open>Properties of the branch and worktree picker\<close>

lemmas dialog_example_defs = dialog_run_def dialog_init_def dialog_loading_def props1_def
  props_single_def proj1_def proj2_def listing1_def wt_dev_def loaded1_def not_a_repo_def

lemmas load_defs = openEffect_def loadStart_def loadSettled_def setProjectData_def
  errorMessage_def

lemmas filter_defs = localBranches_def filterBranches_def allBranches_def worktreesOf_def
  worktreeBranches_def Boolean_str_def startsWith_def trim_def isWhiteSpace_def
  toLowerCase_def isUpperCase_def

lemma includes_str_sublist: "includes_str s q \<longleftrightarrow> sublist q s"
  by (induction s) (auto simp: sublist_Cons_right)

lemma trim_empty_iff: "trim q = [] \<longleftrightarrow> (\<forall>c \<in> set q. isWhiteSpace c)"
proof -
  have "trim q = [] \<longleftrightarrow> (\<forall>c \<in> set (dropWhile isWhiteSpace q). isWhiteSpace c)"
    by (simp add: trim_def dropWhile_eq_Nil_conv)
  also have "\<dots> \<longleftrightarrow> dropWhile isWhiteSpace q = []"
  proof
    assume a: "\<forall>c \<in> set (dropWhile isWhiteSpace q). isWhiteSpace c"
    show "dropWhile isWhiteSpace q = []"
    proof (rule ccontr)
      assume n: "dropWhile isWhiteSpace q \<noteq> []"
      then have "\<not> isWhiteSpace (hd (dropWhile isWhiteSpace q))"
        by (rule hd_dropWhile)
      moreover have "hd (dropWhile isWhiteSpace q) \<in> set (dropWhile isWhiteSpace q)"
        using n by simp
      ultimately show False using a by blast
    qed
  qed (auto dest: set_dropWhileD)
  also have "\<dots> \<longleftrightarrow> (\<forall>c \<in> set q. isWhiteSpace c)"
    by (simp add: dropWhile_eq_Nil_conv)
  finally show ?thesis .
qed

lemma worktreeBranches_mem:
  "Some b \<in> worktreeBranches wts \<longleftrightarrow> b \<noteq> [] \<and> (\<exists>w \<in> set wts. branch w = Some b)"
  by (force simp: worktreeBranches_def Boolean_str_def)

lemma promise_all_Resolved:
  "promise_all ob ow sf = Resolved (b, w) \<longleftrightarrow> ob = Resolved b \<and> ow = Resolved w"
  by (cases ob; cases ow) simp_all

lemma foldl_loadStart:
  "projectData (foldl loadStart st ps) q =
     (if q \<in> project_id ` set ps
      then Some \<lparr> branches = None, worktrees = [], loading = True, error = None \<rparr>
      else projectData st q)"
  by (induction ps arbitrary: st rule: rev_induct) (auto simp: loadStart_def setProjectData_def)

lemma openEffect_projectData:
  "projectData (openEffect pr st) q = Some d \<Longrightarrow>
     projectData st q = Some d \<or>
     d = \<lparr> branches = None, worktrees = [], loading = True, error = None \<rparr>"
  by (auto simp: openEffect_def foldl_loadStart Let_def split: if_splits option.splits)

text \<open>The error panel of lines 207-210 is never reached for a listed project: the list
  keeps only projects whose stored error is falsy.\<close>

lemma no_error_panel:
  assumes "p \<in> set (gitRepoProjects pr st)"
  shows "panel (renderProject st p) \<noteq> Some (ErrorPanel m)"
  using assms
  by (auto simp: gitRepoProjects_def renderProject_def renderPanel_def Let_def
      split: option.splits)

text \<open>
  Claim C6, as amended. When a project's joined fetch rejects, the failure is stored in
  that project's state as a message (the message of a thrown \<open>Error\<close>, or the fallback
  \<open>Failed to load\<close>), with no branches, no worktrees and loading off; the state of every
  other project is unchanged; and the failed project is left out of the rendered project
  list, so that no error panel is rendered for it, nor for any listed project.
\<close>

theorem load_failure_recorded_and_hidden:
  assumes "promise_all ob ow sf = Rejected err"
  shows "projectData (dialog_step st (LoadSettled p ob ow sf)) (project_id p) =
           Some \<lparr> branches = None, worktrees = [], loading = False,
                  error = Some (case err of JsError m \<Rightarrow> m
                                | NotAnError \<Rightarrow> ''Failed to load'') \<rparr> \<and>
         (\<forall>q. q \<noteq> project_id p \<longrightarrow>
            projectData (dialog_step st (LoadSettled p ob ow sf)) q = projectData st q) \<and>
         (\<forall>q \<in> set (gitRepoProjects pr (dialog_step st (LoadSettled p ob ow sf))).
            project_id q \<noteq> project_id p \<and>
            (\<forall>m. panel (renderProject (dialog_step st (LoadSettled p ob ow sf)) q)
                   \<noteq> Some (ErrorPanel m)))"
proof -
  define st' where "st' = dialog_step st (LoadSettled p ob ow sf)"
  have a: "projectData st' =
      (projectData st)(project_id p \<mapsto>
         \<lparr> branches = None, worktrees = [], loading = False,
           error = Some (errorMessage err) \<rparr>)"
    using assms by (simp add: st'_def loadSettled_def setProjectData_def)
  have 1: "projectData st' (project_id p) =
      Some \<lparr> branches = None, worktrees = [], loading = False,
             error = Some (case err of JsError m \<Rightarrow> m | NotAnError \<Rightarrow> ''Failed to load'') \<rparr>"
    by (simp add: a errorMessage_def)
  have 2: "\<forall>q. q \<noteq> project_id p \<longrightarrow> projectData st' q = projectData st q"
    by (simp add: a)
  have 3: "\<forall>q \<in> set (gitRepoProjects pr st'). project_id q \<noteq> project_id p"
    by (auto simp: gitRepoProjects_def a Boolean_str_def)
  have 4: "\<forall>q \<in> set (gitRepoProjects pr st'). \<forall>m.
      panel (renderProject st' q) \<noteq> Some (ErrorPanel m)"
    using no_error_panel by blast
  show ?thesis using 1 2 3 4 unfolding st'_def by blast
qed

text \<open>Two projects are loading; the branch fetch of the first rejects. Its state holds
  the message, the second is still loading, and only the second is listed.\<close>

theorem load_failure_recorded_and_hidden_witness:
  "promise_all (Rejected not_a_repo) (Resolved [wt_dev]) False = Rejected not_a_repo \<and>
   projectData
     (dialog_step dialog_loading
        (LoadSettled proj1 (Rejected not_a_repo) (Resolved [wt_dev]) False)) ''p1'' =
     Some \<lparr> branches = None, worktrees = [], loading = False,
            error = Some ''not a git repository'' \<rparr> \<and>
   projectData
     (dialog_step dialog_loading
        (LoadSettled proj1 (Rejected not_a_repo) (Resolved [wt_dev]) False)) ''p2'' =
     Some \<lparr> branches = None, worktrees = [], loading = True, error = None \<rparr> \<and>
   gitRepoProjects props1
     (dialog_step dialog_loading
        (LoadSettled proj1 (Rejected not_a_repo) (Resolved [wt_dev]) False)) = [proj2]"
proof -
  let ?st = "dialog_step dialog_loading
        (LoadSettled proj1 (Rejected not_a_repo) (Resolved [wt_dev]) False)"
  have h: "promise_all (Rejected not_a_repo) (Resolved [wt_dev]) False = Rejected not_a_repo"
    by simp
  note t = load_failure_recorded_and_hidden [OF h, of dialog_loading proj1 props1]
  have id1: "project_id proj1 = ''p1''" by (simp add: proj1_def)
  have a: "projectData ?st ''p1'' =
     Some \<lparr> branches = None, worktrees = [], loading = False,
            error = Some ''not a git repository'' \<rparr>"
    using t by (simp add: id1 not_a_repo_def)
  have "projectData ?st ''p2'' = projectData dialog_loading ''p2''"
    using t id1 by simp
  then have b: "projectData ?st ''p2'' =
     Some \<lparr> branches = None, worktrees = [], loading = True, error = None \<rparr>"
    by (simp add: dialog_example_defs load_defs)
  have c: "gitRepoProjects props1 ?st = [proj2]"
    by (simp add: dialog_example_defs load_defs gitRepoProjects_def Boolean_str_def)
  show ?thesis using h a b c by simp
qed

text \<open>The claim as written fails on a dialog with one project, expanded, whose branch
  fetch rejects: the message is stored, but the project is filtered out of the list and
  the dialog shows the empty state instead of the error.\<close>

theorem load_error_not_displayed_counterexample:
  "projectData
     (dialog_run dialog_init
        [Effect props_single, LoadSettled proj1 (Rejected not_a_repo) (Resolved []) False])
     ''p1'' =
     Some \<lparr> branches = None, worktrees = [], loading = False,
            error = Some ''not a git repository'' \<rparr> \<and>
   ''p1'' \<in> expandedProjects
     (dialog_run dialog_init
        [Effect props_single, LoadSettled proj1 (Rejected not_a_repo) (Resolved []) False]) \<and>
   render props_single
     (dialog_run dialog_init
        [Effect props_single, LoadSettled proj1 (Rejected not_a_repo) (Resolved []) False])
     = NoRepositories"
  by (simp add: dialog_example_defs load_defs render_def gitRepoProjects_def Boolean_str_def)

text \<open>
  Claim C7. \<open>handleCreateWorktree\<close> first marks the row keyed by project id and branch
  name as in flight (that row renders its spinner). When the external call fulfils, \<open>onOpenChange(false)\<close> is called.
  When it throws, the error is logged with \<open>console.error\<close>, \<open>onOpenChange\<close> is not
  called and nothing else of the component's state changes (no error is stored). In both
  cases the in-flight marker is cleared at the end, and no row renders as in flight.
\<close>

theorem create_worktree_outcomes:
  "creatingWorktree (createStart st p b) = Some (project_id p @ '':'' @ b) \<and>
   isCreating (renderRow (createStart st p b) p data b) \<and>
   creatingWorktree (handleCreateWorktree st p b outcome) = None \<and>
   (\<forall>q name. \<not> isCreating (renderRow (handleCreateWorktree st p b outcome) q data name)) \<and>
   (outcome = Resolved () \<longrightarrow>
      onOpenChange_calls (handleCreateWorktree st p b outcome)
        = onOpenChange_calls st @ [False] \<and>
      console_errors (handleCreateWorktree st p b outcome) = console_errors st) \<and>
   (\<forall>err. outcome = Rejected err \<longrightarrow>
      onOpenChange_calls (handleCreateWorktree st p b outcome) = onOpenChange_calls st \<and>
      console_errors (handleCreateWorktree st p b outcome)
        = console_errors st @ [(''Failed to create worktree:'', err)] \<and>
      projectData (handleCreateWorktree st p b outcome) = projectData st \<and>
      searchQuery (handleCreateWorktree st p b outcome) = searchQuery st \<and>
      expandedProjects (handleCreateWorktree st p b outcome) = expandedProjects st)"
  by (cases outcome)
    (simp_all add: handleCreateWorktree_def createSettled_def createStart_def worktreeKey_def
      renderRow_def Let_def)

text \<open>Creating a worktree for \<open>dev\<close> of the first project, once fulfilled and once
  rejected.\<close>

theorem create_worktree_outcomes_witness:
  "creatingWorktree (createStart dialog_loading proj1 ''dev'') = Some ''p1:dev'' \<and>
   onOpenChange_calls (handleCreateWorktree dialog_loading proj1 ''dev'' (Resolved ()))
     = [False] \<and>
   creatingWorktree (handleCreateWorktree dialog_loading proj1 ''dev'' (Resolved ())) = None \<and>
   onOpenChange_calls
     (handleCreateWorktree dialog_loading proj1 ''dev'' (Rejected NotAnError)) = [] \<and>
   console_errors (handleCreateWorktree dialog_loading proj1 ''dev'' (Rejected NotAnError))
     = [(''Failed to create worktree:'', NotAnError)] \<and>
   projectData (handleCreateWorktree dialog_loading proj1 ''dev'' (Rejected NotAnError))
     = projectData dialog_loading \<and>
   creatingWorktree
     (handleCreateWorktree dialog_loading proj1 ''dev'' (Rejected NotAnError)) = None"
proof -
  have c: "onOpenChange_calls dialog_loading = [] \<and> console_errors dialog_loading = []"
    by (simp add: dialog_example_defs load_defs)
  have i: "project_id proj1 = ''p1''" by (simp add: proj1_def)
  show ?thesis
    using
      create_worktree_outcomes
        [where st = dialog_loading and p = proj1 and b = "''dev''" and outcome = "Resolved ()"]
      create_worktree_outcomes
        [where st = dialog_loading and p = proj1 and b = "''dev''"
           and outcome = "Rejected NotAnError"]
      c i
    by simp
qed

text \<open>
  Claim C8, as amended. The displayed branch list of a project is its listing, in the
  listing's order, restricted to the names that pass three tests: the query test, passed
  by every name when the query is empty or all whitespace and otherwise by the names
  whose lowercased form contains the lowercased query as a contiguous substring; not
  starting with \<open>remotes/\<close>; and not being the non-empty branch name of an existing
  worktree.
\<close>

theorem local_branches_characterised:
  "localBranches data query =
     filter
       (\<lambda>b. ((\<forall>c \<in> set query. isWhiteSpace c) \<or>
               sublist (toLowerCase query) (toLowerCase b)) \<and>
            \<not> prefix ''remotes/'' b \<and>
            \<not> (b \<noteq> [] \<and> (\<exists>w \<in> set (worktreesOf data). branch w = Some b)))
       (allBranches data)"
  by (auto simp: localBranches_def filterBranches_def startsWith_def worktreeBranches_mem
      includes_str_sublist trim_empty_iff Let_def intro!: filter_cong)

text \<open>The listing \<open>main\<close>, \<open>Feature/Login\<close>, \<open>remotes/origin/main\<close>, \<open>dev\<close> with a
  worktree on \<open>dev\<close>, searched for \<open>LOG\<close>.\<close>

theorem local_branches_characterised_witness:
  "allBranches (Some loaded1) = [''main'', ''Feature/Login'', ''remotes/origin/main'', ''dev''] \<and>
   localBranches (Some loaded1) ''LOG'' = [''Feature/Login'']"
proof -
  have a: "allBranches (Some loaded1) =
      [''main'', ''Feature/Login'', ''remotes/origin/main'', ''dev'']"
    by (simp add: allBranches_def loaded1_def listing1_def)
  have w: "worktreesOf (Some loaded1) = [wt_dev]"
    by (simp add: worktreesOf_def loaded1_def)
  have "localBranches (Some loaded1) ''LOG'' = [''Feature/Login'']"
    using local_branches_characterised [of "Some loaded1" "''LOG''"]
    by (simp add: a w wt_dev_def isWhiteSpace_def toLowerCase_def isUpperCase_def
        includes_str_sublist [symmetric])
  then show ?thesis using a by simp
qed

text \<open>The claim as written fails for the query of one space: the displayed list holds
  \<open>main\<close> and \<open>Feature/Login\<close>, and neither name contains a space.\<close>

theorem blank_query_shows_all_counterexample:
  "allBranches (Some loaded1) = [''main'', ''Feature/Login'', ''remotes/origin/main'', ''dev''] \<and>
   localBranches (Some loaded1) '' '' = [''main'', ''Feature/Login''] \<and>
   \<not> sublist (toLowerCase '' '') (toLowerCase ''main'') \<and>
   \<not> sublist (toLowerCase '' '') (toLowerCase ''Feature/Login'')"
  by (simp add: filter_defs loaded1_def listing1_def wt_dev_def
      includes_str_sublist [symmetric])

text \<open>Every step keeps the shape of the stored load states and the provenance of a
  stored listing.\<close>

lemma joined_mono: "joined evs pid d \<Longrightarrow> joined (evs @ [ev]) pid d"
  unfolding joined_def by (metis UnCI set_append)

lemma step_shape:
  assumes "\<forall>pid d. projectData st pid = Some d \<longrightarrow> shaped d \<and> joined evs pid d"
    and "projectData (dialog_step st ev) pid = Some d"
  shows "shaped d \<and> joined (evs @ [ev]) pid d"
proof (cases ev)
  case (Effect pr)
  then have "projectData st pid = Some d \<or>
      d = \<lparr> branches = None, worktrees = [], loading = True, error = None \<rparr>"
    using assms(2) openEffect_projectData by simp
  then show ?thesis
  proof
    assume "projectData st pid = Some d"
    then show ?thesis using assms(1) joined_mono by blast
  next
    assume "d = \<lparr> branches = None, worktrees = [], loading = True, error = None \<rparr>"
    then show ?thesis
      by (simp add: shaped_def joined_def isLoadingState_def isSuccessState_def
          isErrorState_def)
  qed
next
  case (LoadSettled p ob ow sf)
  show ?thesis
  proof (cases "pid = project_id p")
    case False
    then have "projectData st pid = Some d"
      using assms(2) LoadSettled
      by (auto simp: loadSettled_def setProjectData_def split: settled.splits)
    then show ?thesis using assms(1) joined_mono by blast
  next
    case True
    show ?thesis
    proof (cases "promise_all ob ow sf")
      case (Resolved r)
      obtain b w where r: "r = (b, w)" by (cases r)
      with Resolved have "ob = Resolved b" "ow = Resolved w"
        by (simp_all add: promise_all_Resolved)
      moreover have "d = \<lparr> branches = Some b, worktrees = w, loading = False, error = None \<rparr>"
        using assms(2) LoadSettled True Resolved r
        by (simp add: loadSettled_def setProjectData_def)
      ultimately show ?thesis using LoadSettled True
        by (auto simp: shaped_def joined_def isLoadingState_def isSuccessState_def
            isErrorState_def)
    next
      case (Rejected err)
      then have "d = \<lparr> branches = None, worktrees = [], loading = False,
          error = Some (errorMessage err) \<rparr>"
        using assms(2) LoadSettled True by (simp add: loadSettled_def setProjectData_def)
      then show ?thesis
        by (simp add: shaped_def joined_def isLoadingState_def isSuccessState_def
            isErrorState_def)
    qed
  qed
next
  case (ToggleProject x)
  then have "projectData st pid = Some d" using assms(2) by (simp add: toggleProject_def)
  then show ?thesis using assms(1) joined_mono by blast
next
  case (SetSearchQuery x)
  then have "projectData st pid = Some d" using assms(2) by simp
  then show ?thesis using assms(1) joined_mono by blast
next
  case (CreateStart x y)
  then have "projectData st pid = Some d" using assms(2) by (simp add: createStart_def)
  then show ?thesis using assms(1) joined_mono by blast
next
  case (CreateSettled x)
  then have "projectData st pid = Some d"
    using assms(2) by (simp add: createSettled_def split: settled.splits)
  then show ?thesis using assms(1) joined_mono by blast
qed

lemma run_shape:
  "\<forall>pid d. projectData (dialog_run dialog_init evs) pid = Some d \<longrightarrow>
     shaped d \<and> joined evs pid d"
proof (induction evs rule: rev_induct)
  case Nil
  then show ?case by (simp add: dialog_run_def dialog_init_def)
next
  case (snoc ev evs)
  have "dialog_run dialog_init (evs @ [ev]) = dialog_step (dialog_run dialog_init evs) ev"
    by (simp add: dialog_run_def)
  then show ?case using step_shape [OF snoc] by simp
qed

text \<open>
  Claim C9. After any sequence of events from the initial state, every stored per-project
  load state has exactly one of the three shapes loading, success, error; a state without
  a branch listing has no worktrees; and a stored branch listing comes with the worktree
  list of the same settled pair of fetches.
\<close>

theorem load_state_three_shapes:
  assumes "projectData (dialog_run dialog_init evs) pid = Some d"
  shows "((isLoadingState d \<and> \<not> isSuccessState d \<and> \<not> isErrorState d) \<or>
          (\<not> isLoadingState d \<and> isSuccessState d \<and> \<not> isErrorState d) \<or>
          (\<not> isLoadingState d \<and> \<not> isSuccessState d \<and> isErrorState d)) \<and>
         (branches d = None \<longrightarrow> worktrees d = []) \<and>
         (\<forall>b. branches d = Some b \<longrightarrow>
            (\<exists>p sf. project_id p = pid \<and>
               LoadSettled p (Resolved b) (Resolved (worktrees d)) sf \<in> set evs))"
proof -
  have s: "shaped d" and j: "joined evs pid d"
    using run_shape assms by blast+
  have "branches d = None \<longrightarrow> worktrees d = []"
    using s by (auto simp: shaped_def isLoadingState_def isSuccessState_def isErrorState_def)
  then show ?thesis using s j unfolding shaped_def joined_def by blast
qed

text \<open>After the effect and the settling of the first project's fetches, the first
  project is in the success shape and the second still in the loading shape.\<close>

theorem load_state_three_shapes_witness:
  "projectData
     (dialog_run dialog_init
        [Effect props1, LoadSettled proj1 (Resolved listing1) (Resolved [wt_dev]) False])
     ''p1'' = Some loaded1 \<and>
   isSuccessState loaded1 \<and> \<not> isLoadingState loaded1 \<and> \<not> isErrorState loaded1"
proof -
  let ?evs = "[Effect props1, LoadSettled proj1 (Resolved listing1) (Resolved [wt_dev]) False]"
  have h: "projectData (dialog_run dialog_init ?evs) ''p1'' = Some loaded1"
    by (simp add: dialog_run_def dialog_init_def props1_def proj1_def proj2_def loaded1_def
        load_defs)
  have n: "\<not> isLoadingState loaded1"
    by (simp add: isLoadingState_def loaded1_def)
  have e: "\<not> isErrorState loaded1"
    by (simp add: isErrorState_def loaded1_def)
  have "isSuccessState loaded1"
    using load_state_three_shapes [OF h] n e by blast
  then show ?thesis using h n e by simp
qed

text \<open>
  Claim C10. \<open>filterBranches\<close> returns its list unchanged when the query is empty or
  consists of whitespace only, and for every query its result is a subsequence of the
  list (same elements in the same order, some left out).
\<close>

theorem filter_branches_identity_and_subseq:
  "((\<forall>c \<in> set query. isWhiteSpace c) \<longrightarrow> filterBranches bs query = bs) \<and>
   subseq (filterBranches bs query) bs"
  by (simp add: filterBranches_def trim_empty_iff Let_def)

text \<open>The empty query and a query of a space and a tab return the list; the query
  \<open>MA\<close> returns a proper subsequence.\<close>

theorem filter_branches_identity_and_subseq_witness:
  "filterBranches [''main'', ''dev''] [] = [''main'', ''dev''] \<and>
   filterBranches [''main'', ''dev''] [CHR '' '', CHR 0x09] = [''main'', ''dev''] \<and>
   filterBranches [''main'', ''dev''] ''MA'' = [''main''] \<and>
   subseq (filterBranches [''main'', ''dev''] ''MA'') [''main'', ''dev'']"
proof -
  note t = filter_branches_identity_and_subseq [of _ "[''main'', ''dev'']"]
  have h1: "\<forall>c \<in> set ([] :: string). isWhiteSpace c" by simp
  have h2: "\<forall>c \<in> set [CHR '' '', CHR 0x09]. isWhiteSpace c"
    by (simp add: isWhiteSpace_def)
  have a: "filterBranches [''main'', ''dev''] [] = [''main'', ''dev'']"
    using t [of "[]"] h1 by blast
  have b: "filterBranches [''main'', ''dev''] [CHR '' '', CHR 0x09] = [''main'', ''dev'']"
    using t [of "[CHR '' '', CHR 0x09]"] h2 by blast
  have c: "filterBranches [''main'', ''dev''] ''MA'' = [''main'']"
    by (simp add: filter_defs)
  have d: "subseq (filterBranches [''main'', ''dev''] ''MA'') [''main'', ''dev'']"
    using t [of "''MA''"] by blast
  show ?thesis using a b c d by simp
qed

end
